theory Spec2Isabelle
  imports Main "HOL-Library.Word"
begin

section \<open>Commat Commit: the commit-message pipeline of \<^verbatim>\<open>src/extension.ts\<close>\<close>

text \<open>
  The extension registers one command. Its handler reads the Gemini API key from the
  secret store (asking for it on first use), runs \<^verbatim>\<open>git diff --cached\<close>, sends the diff
  to the generation endpoint and writes the answer into the commit-message field of the
  first git repository. Everything the handler does to the outside (the secret store,
  the input boxes, the notifications, the child process, the HTTP call) is modelled by
  an environment of answers and a world that is passed along and returned.
\<close>

subsection \<open>ECMAScript strings\<close>

text \<open>
  A string is a sequence of 16-bit code units. \<open>js\<close> writes an ASCII literal.
  \<open>trim\<close> is \<^verbatim>\<open>String.prototype.trim\<close>: it strips the code units of the
  WhiteSpace and LineTerminator productions from both ends.
\<close>

type_synonym jsstring = "16 word list"

definition js :: "string \<Rightarrow> jsstring" where
  "js s = map (\<lambda>c. of_char c) s"

definition isWhiteSpace :: "16 word \<Rightarrow> bool" where
  "isWhiteSpace c \<longleftrightarrow>
     c = 0x9 \<or> c = 0xA \<or> c = 0xB \<or> c = 0xC \<or> c = 0xD \<or> c = 0x20 \<or> c = 0xA0 \<or>
     c = 0x1680 \<or> (0x2000 \<le> c \<and> c \<le> 0x200A) \<or> c = 0x2028 \<or> c = 0x2029 \<or>
     c = 0x202F \<or> c = 0x205F \<or> c = 0x3000 \<or> c = 0xFEFF"

definition trim :: "jsstring \<Rightarrow> jsstring" where
  "trim s = rev (dropWhile isWhiteSpace (rev (dropWhile isWhiteSpace s)))"

text \<open>\<^verbatim>\<open>Array.prototype.join\<close> on strings already converted.\<close>

fun joinWith :: "jsstring \<Rightarrow> jsstring list \<Rightarrow> jsstring" where
  "joinWith sep [] = []"
| "joinWith sep [x] = x"
| "joinWith sep (x # y # ys) = x @ sep @ joinWith sep (y # ys)"

subsection \<open>Parsed JSON values\<close>

text \<open>
  The value \<^verbatim>\<open>response.json()\<close> resolves to. A number is kept as its ECMAScript string
  form (\<^verbatim>\<open>Number::toString\<close>: both zeros are \<^verbatim>\<open>"0"\<close>), which is all the source observes
  of it. An object is its member list in source order; a later member with the same
  name overwrites an earlier one, as \<^verbatim>\<open>JSON.parse\<close> does. \<open>None\<close> of type
  \<open>json option\<close> is \<^verbatim>\<open>undefined\<close>.
\<close>

datatype json =
    JNull
  | JBool bool
  | JNum jsstring
  | JStr jsstring
  | JArr "json list"
  | JObj "(jsstring \<times> json) list"

text \<open>
  \<^verbatim>\<open>v?.name\<close> for the names the source reads (\<^verbatim>\<open>candidates\<close>, \<^verbatim>\<open>content\<close>, \<^verbatim>\<open>parts\<close>,
  \<^verbatim>\<open>text\<close>, and \<^verbatim>\<open>0\<close> on an object): only an object can hold them; on \<^verbatim>\<open>null\<close> the
  optional chain yields \<^verbatim>\<open>undefined\<close>, on an array, string, number or boolean the
  property does not exist.
\<close>

fun getProp :: "jsstring \<Rightarrow> json \<Rightarrow> json option" where
  "getProp name (JObj kvs) = map_of (rev kvs) name"
| "getProp name _ = None"

text \<open>\<^verbatim>\<open>v?.[0]\<close>: the first element of an array, the first code unit of a string, the
  member \<^verbatim>\<open>"0"\<close> of an object.\<close>

fun index0 :: "json \<Rightarrow> json option" where
  "index0 (JArr []) = None"
| "index0 (JArr (x # xs)) = Some x"
| "index0 (JStr []) = None"
| "index0 (JStr (c # cs)) = Some (JStr [c])"
| "index0 (JObj kvs) = getProp (js ''0'') (JObj kvs)"
| "index0 _ = None"

text \<open>\<^verbatim>\<open>data?.candidates?.[0]?.content?.parts\<close>\<close>

definition partsOf :: "json \<Rightarrow> json option" where
  "partsOf data =
     Option.bind (Option.bind (Option.bind (getProp (js ''candidates'') data) index0)
       (getProp (js ''content''))) (getProp (js ''parts''))"

text \<open>\<^verbatim>\<open>Boolean(v)\<close>\<close>

fun truthy :: "json option \<Rightarrow> bool" where
  "truthy None = False"
| "truthy (Some JNull) = False"
| "truthy (Some (JBool b)) = b"
| "truthy (Some (JNum r)) = (r \<noteq> js ''0'')"
| "truthy (Some (JStr s)) = (s \<noteq> [])"
| "truthy (Some (JArr xs)) = True"
| "truthy (Some (JObj kvs)) = True"

text \<open>
  \<^verbatim>\<open>ToString(v)\<close>. On an object it goes through \<^verbatim>\<open>Object.prototype.toString\<close>, unless the
  object has a member \<^verbatim>\<open>toString\<close> of its own: that member is never callable, and the
  conversion ends in a TypeError. An array converts by \<^verbatim>\<open>join(",")\<close>, which converts each
  element that is not \<^verbatim>\<open>null\<close>.
\<close>

fun toStringThrows :: "json \<Rightarrow> bool" where
  "toStringThrows (JObj kvs) = (js ''toString'' \<in> fst ` set kvs)"
| "toStringThrows (JArr xs) = (\<exists>x\<in>set xs. toStringThrows x)"
| "toStringThrows _ = False"

fun toString :: "json \<Rightarrow> jsstring" where
  "toString JNull = js ''null''"
| "toString (JBool b) = (if b then js ''true'' else js ''false'')"
| "toString (JNum r) = r"
| "toString (JStr s) = s"
| "toString (JArr xs) =
     joinWith (js '','') (map (\<lambda>x. case x of JNull \<Rightarrow> [] | _ \<Rightarrow> toString x) xs)"
| "toString (JObj kvs) = js ''[object Object]''"

subsection \<open>Errors\<close>

text \<open>One constructor for each \<^verbatim>\<open>Error\<close> the handler can see, with the message of the source.\<close>

datatype error =
    NoWorkspaceFolder          \<comment> \<open>\<^verbatim>\<open>No workspace folder found\<close>\<close>
  | FailedToGetStagedChanges   \<comment> \<open>\<^verbatim>\<open>Failed to get staged changes\<close>\<close>
  | FetchRejected              \<comment> \<open>\<^verbatim>\<open>fetch\<close> rejects: no HTTP response\<close>
  | NoApiKeyProvided           \<comment> \<open>\<^verbatim>\<open>No API key provided\<close>\<close>
  | RateLimitExceeded          \<comment> \<open>\<^verbatim>\<open>Gemini API rate limit exceeded\<close>\<close>
  | GeminiApiError nat         \<comment> \<open>\<^verbatim>\<open>Gemini API error: ${response.status}\<close>\<close>
  | InvalidJsonBody            \<comment> \<open>\<^verbatim>\<open>response.json()\<close> rejects\<close>
  | FailedToGenerate           \<comment> \<open>\<^verbatim>\<open>Failed to generate commit message\<close>\<close>
  | JoinTypeError              \<comment> \<open>\<^verbatim>\<open>join\<close> cannot convert an element\<close>
  | EmptyCommitMessage         \<comment> \<open>\<^verbatim>\<open>Empty commit message from Gemini\<close>\<close>
  | GitExtensionNotFound       \<comment> \<open>\<^verbatim>\<open>Git extension not found\<close>\<close>
  | NoGitRepositoryFound       \<comment> \<open>\<^verbatim>\<open>No Git repository found\<close>\<close>

text \<open>The error kinds of the specification's taxonomy, and the kind of each error.\<close>

datatype errorClass =
    NoWorkspace | DiffUnavailable | RateLimited | NoCredential
  | UpstreamError nat | EmptyGeneration | Unclassified

fun specClass :: "error \<Rightarrow> errorClass" where
  "specClass NoWorkspaceFolder = NoWorkspace"
| "specClass FailedToGetStagedChanges = DiffUnavailable"
| "specClass NoApiKeyProvided = NoCredential"
| "specClass RateLimitExceeded = RateLimited"
| "specClass (GeminiApiError s) = UpstreamError s"
| "specClass FailedToGenerate = EmptyGeneration"
| "specClass EmptyCommitMessage = EmptyGeneration"
| "specClass _ = Unclassified"

subsection \<open>The host: environment and world\<close>

text \<open>
  What \<^verbatim>\<open>child_process.exec\<close> reports for \<^verbatim>\<open>git diff --cached\<close>: the callback's \<^verbatim>\<open>err\<close>
  is set when the process cannot be started, when it writes more than \<^verbatim>\<open>maxBuffer\<close>,
  and when it ends with a status other than 0.
\<close>

datatype gitRun =
    CannotRun
  | OutputTooLarge
  | Exited nat jsstring   \<comment> \<open>exit status and standard output\<close>

fun execErr :: "gitRun \<Rightarrow> bool" where
  "execErr CannotRun = True"
| "execErr OutputTooLarge = True"
| "execErr (Exited code out) = (code \<noteq> 0)"

fun execStdout :: "gitRun \<Rightarrow> jsstring" where
  "execStdout (Exited code out) = out"
| "execStdout _ = []"

datatype fetchResult =
    FetchFailed                       \<comment> \<open>the promise of \<^verbatim>\<open>fetch\<close> rejects\<close>
  | Response nat "json option"        \<comment> \<open>status, and the body parsed (\<open>None\<close>: not JSON)\<close>

text \<open>\<^verbatim>\<open>response.ok\<close>\<close>

definition ok :: "nat \<Rightarrow> bool" where
  "ok status \<longleftrightarrow> 200 \<le> status \<and> status \<le> 299"

text \<open>The item picked in the rate-limit notification (\<open>Dismissed\<close>: \<^verbatim>\<open>undefined\<close>).\<close>

datatype choice = EnterNewApiKey | Cancel | Dismissed

text \<open>
  The environment answers each interaction. The \<open>n\<close>-th input box, the \<open>n\<close>-th
  rate-limit notification and the \<open>n\<close>-th network call (counted from 0 in the world's
  trace) get the answer at index \<open>n\<close>; the answer of the endpoint may depend on the key
  and the diff sent.
\<close>

record env =
  workspaceFolders :: "jsstring list option"
  exec :: "jsstring \<Rightarrow> nat \<Rightarrow> gitRun"
  showInputBox :: "nat \<Rightarrow> jsstring option"
  showErrorMessage :: "nat \<Rightarrow> choice"
  fetch :: "nat \<Rightarrow> jsstring \<Rightarrow> jsstring \<Rightarrow> fetchResult"

datatype inputPrompt = EnterKeyPrompt | NewKeyPrompt

datatype event =
    InputBoxShown inputPrompt
  | SecretStored string jsstring
  | InformationShown                 \<comment> \<open>\<^verbatim>\<open>Gemini API Key saved securely\<close>\<close>
  | ProgressStarted
  | GitDiffExecuted jsstring nat     \<comment> \<open>\<^verbatim>\<open>cwd\<close> and \<^verbatim>\<open>maxBuffer\<close>\<close>
  | WarningShown                     \<comment> \<open>\<^verbatim>\<open>No staged changes found. Please run git add first.\<close>\<close>
  | NetworkCall jsstring jsstring    \<comment> \<open>the key and the diff of the request\<close>
  | RateLimitChoiceShown
  | ConsoleError json
  | ErrorShown error                 \<comment> \<open>\<^verbatim>\<open>Commat Commit Error: ${err.message}\<close>\<close>

text \<open>
  The world: the secret store, the commit-message fields of the git extension's
  repositories (\<open>None\<close>: the extension \<^verbatim>\<open>vscode.git\<close> is not there), and what has
  happened so far.
\<close>

record world =
  secrets :: "string \<rightharpoonup> jsstring"
  repositories :: "jsstring list option"
  trace :: "event list"

definition logEvent :: "event \<Rightarrow> world \<Rightarrow> world" where
  "logEvent e w = w\<lparr>trace := trace w @ [e]\<rparr>"

fun isInputBox :: "event \<Rightarrow> bool" where
  "isInputBox (InputBoxShown p) = True"
| "isInputBox _ = False"

fun isRateLimitChoice :: "event \<Rightarrow> bool" where
  "isRateLimitChoice RateLimitChoiceShown = True"
| "isRateLimitChoice _ = False"

fun isNetworkCall :: "event \<Rightarrow> bool" where
  "isNetworkCall (NetworkCall k d) = True"
| "isNetworkCall _ = False"

fun isErrorShown :: "event \<Rightarrow> bool" where
  "isErrorShown (ErrorShown e) = True"
| "isErrorShown _ = False"

definition inputBoxes :: "world \<Rightarrow> nat" where
  "inputBoxes w = length (filter isInputBox (trace w))"

definition rateLimitChoices :: "world \<Rightarrow> nat" where
  "rateLimitChoices w = length (filter isRateLimitChoice (trace w))"

definition networkCalls :: "world \<Rightarrow> nat" where
  "networkCalls w = length (filter isNetworkCall (trace w))"

text \<open>\<^verbatim>\<open>extensionContext.secrets.store(name, value)\<close>\<close>

definition secretsStore :: "string \<Rightarrow> jsstring \<Rightarrow> world \<Rightarrow> world" where
  "secretsStore name v w = logEvent (SecretStored name v) (w\<lparr>secrets := (secrets w)(name \<mapsto> v)\<rparr>)"

subsection \<open>The helpers of the source\<close>

text \<open>
  \<^verbatim>\<open>getGeminiApiKey\<close>. The result is \<^verbatim>\<open>string | undefined\<close>; the empty string is falsy, so
  an empty stored value asks again and an empty answer is not stored.
\<close>

definition getGeminiApiKey :: "env \<Rightarrow> world \<Rightarrow> jsstring option \<times> world" where
  "getGeminiApiKey e w =
     (let apiKey = secrets w ''geminiApiKey'' in
      if apiKey = None \<or> apiKey = Some [] then
        (let apiKey' = showInputBox e (inputBoxes w);
             w1 = logEvent (InputBoxShown EnterKeyPrompt) w in
         case apiKey' of
           None \<Rightarrow> (None, w1)
         | Some k \<Rightarrow>
             if k = [] then (Some k, w1)
             else (Some k, logEvent InformationShown (secretsStore ''geminiApiKey'' k w1)))
      else (apiKey, w))"

definition getWorkspaceRoot :: "env \<Rightarrow> error + jsstring" where
  "getWorkspaceRoot e =
     (case workspaceFolders e of
        None \<Rightarrow> Inl NoWorkspaceFolder
      | Some [] \<Rightarrow> Inl NoWorkspaceFolder
      | Some (folder # folders) \<Rightarrow> Inr folder)"

text \<open>
  \<^verbatim>\<open>getGitDiff\<close>. \<^verbatim>\<open>getWorkspaceRoot()\<close> is evaluated inside the promise's executor,
  before \<^verbatim>\<open>exec\<close> is called, so its exception rejects the promise.
\<close>

definition getGitDiff :: "env \<Rightarrow> world \<Rightarrow> (error + jsstring) \<times> world" where
  "getGitDiff e w =
     (case getWorkspaceRoot e of
        Inl err \<Rightarrow> (Inl err, w)
      | Inr cwd \<Rightarrow>
          (let run = exec e cwd (1024 * 1024);
               w1 = logEvent (GitDiffExecuted cwd (1024 * 1024)) w in
           if execErr run then (Inl FailedToGetStagedChanges, w1)
           else (Inr (execStdout run), w1)))"

text \<open>\<^verbatim>\<open>promptNewGeminiApiKey\<close>\<close>

definition promptNewGeminiApiKey :: "env \<Rightarrow> world \<Rightarrow> jsstring option \<times> world" where
  "promptNewGeminiApiKey e w =
     (let newKey = showInputBox e (inputBoxes w);
          w1 = logEvent (InputBoxShown NewKeyPrompt) w in
      case newKey of
        None \<Rightarrow> (None, w1)
      | Some k \<Rightarrow>
          if k = [] then (Some k, w1)
          else (Some k, secretsStore ''geminiApiKey'' k w1))"

text \<open>
  The end of \<^verbatim>\<open>generateCommitMessage\<close>, from \<^verbatim>\<open>response.json()\<close> on:
  \<^verbatim>\<open>parts.map((p) => p?.text).filter(Boolean).join("").trim()\<close>.
\<close>

definition joinTexts :: "json list \<Rightarrow> error + jsstring" where
  "joinTexts ps =
     (let kept = filter truthy (map (getProp (js ''text'')) ps) in
      if \<exists>v\<in>set kept. (case v of None \<Rightarrow> False | Some x \<Rightarrow> toStringThrows x)
      then Inl JoinTypeError
      else Inr (joinWith []
             (map (\<lambda>v. case v of None \<Rightarrow> [] | Some JNull \<Rightarrow> [] | Some x \<Rightarrow> toString x) kept)))"

definition readMessage :: "json option \<Rightarrow> world \<Rightarrow> (error + jsstring) \<times> world" where
  "readMessage body w =
     (case body of
        None \<Rightarrow> (Inl InvalidJsonBody, w)
      | Some data \<Rightarrow>
          (case partsOf data of
             Some (JArr ps) \<Rightarrow>
               (case joinTexts ps of
                  Inl err \<Rightarrow> (Inl err, w)
                | Inr joined \<Rightarrow>
                    (let text = trim joined in
                     if text = [] then (Inl EmptyCommitMessage, w) else (Inr text, w)))
           | _ \<Rightarrow> (Inl FailedToGenerate, logEvent (ConsoleError data) w)))"

text \<open>
  \<^verbatim>\<open>generateCommitMessage\<close>. On status 429 with a new key entered the function calls
  itself; nothing bounds how often, so the result is an option and \<open>None\<close> is a run that
  never returns.
\<close>

partial_function (option) generateCommitMessage ::
  "env \<Rightarrow> jsstring \<Rightarrow> jsstring \<Rightarrow> world \<Rightarrow> ((error + jsstring) \<times> world) option" where
  "generateCommitMessage e apiKey diff w =
     (let response = fetch e (networkCalls w) apiKey diff;
          w1 = logEvent (NetworkCall apiKey diff) w in
      case response of
        FetchFailed \<Rightarrow> Some (Inl FetchRejected, w1)
      | Response status body \<Rightarrow>
          if status = 429 then
            (let choice = showErrorMessage e (rateLimitChoices w1);
                 w2 = logEvent RateLimitChoiceShown w1 in
             if choice = EnterNewApiKey then
               (case promptNewGeminiApiKey e w2 of
                  (None, w3) \<Rightarrow> Some (Inl NoApiKeyProvided, w3)
                | (Some newKey, w3) \<Rightarrow>
                    if newKey = [] then Some (Inl NoApiKeyProvided, w3)
                    else generateCommitMessage e newKey diff w3)
             else Some (Inl RateLimitExceeded, w2))
          else if \<not> ok status then Some (Inl (GeminiApiError status), w1)
          else Some (readMessage body w1))"

text \<open>\<^verbatim>\<open>getGitApi\<close> and \<^verbatim>\<open>getActiveRepository\<close>: the repositories of the git extension, and
  the first of them.\<close>

definition getGitApi :: "world \<Rightarrow> error + jsstring list" where
  "getGitApi w =
     (case repositories w of None \<Rightarrow> Inl GitExtensionNotFound | Some rs \<Rightarrow> Inr rs)"

definition getActiveRepository :: "world \<Rightarrow> error + nat" where
  "getActiveRepository w =
     (case getGitApi w of
        Inl err \<Rightarrow> Inl err
      | Inr rs \<Rightarrow> if length rs = 0 then Inl NoGitRepositoryFound else Inr 0)"

text \<open>\<^verbatim>\<open>repo.inputBox.value = rawMessage\<close>\<close>

definition setInputBox :: "nat \<Rightarrow> jsstring \<Rightarrow> world \<Rightarrow> world" where
  "setInputBox i v w = w\<lparr>repositories := map_option (\<lambda>rs. rs[i := v]) (repositories w)\<rparr>"

subsection \<open>The command\<close>

text \<open>The task run under \<^verbatim>\<open>withProgress\<close>.\<close>

definition progressTask :: "env \<Rightarrow> jsstring \<Rightarrow> world \<Rightarrow> ((error + unit) \<times> world) option" where
  "progressTask e apiKey w =
     (case getGitDiff e w of
        (Inl err, w1) \<Rightarrow> Some (Inl err, w1)
      | (Inr diff, w1) \<Rightarrow>
          if trim diff = [] then Some (Inr (), logEvent WarningShown w1)
          else
            (case generateCommitMessage e apiKey diff w1 of
               None \<Rightarrow> None
             | Some (Inl err, w2) \<Rightarrow> Some (Inl err, w2)
             | Some (Inr rawMessage, w2) \<Rightarrow>
                 (case getActiveRepository w2 of
                    Inl err \<Rightarrow> Some (Inl err, w2)
                  | Inr repo \<Rightarrow> Some (Inr (), setInputBox repo rawMessage w2))))"

text \<open>The handler of \<^verbatim>\<open>commatCommit.generate\<close>, registered by \<^verbatim>\<open>activate\<close>.\<close>

definition generateCommand :: "env \<Rightarrow> world \<Rightarrow> world option" where
  "generateCommand e w =
     (case getGeminiApiKey e w of
        (None, w1) \<Rightarrow> Some w1
      | (Some apiKey, w1) \<Rightarrow>
          if apiKey = [] then Some w1
          else
            (case progressTask e apiKey (logEvent ProgressStarted w1) of
               None \<Rightarrow> None
             | Some (Inl err, w2) \<Rightarrow> Some (logEvent (ErrorShown err) w2)
             | Some (Inr u, w2) \<Rightarrow> Some w2))"

subsection \<open>Concrete hosts\<close>

text \<open>
  A host with one workspace folder whose \<^verbatim>\<open>git diff --cached\<close> prints \<open>diff\<close>, with the
  given answers of the user and of the endpoint; a world with one repository, an empty
  commit-message field and the given stored key; and a reply of the endpoint in the
  shape the Gemini API documents, one part for each text.
\<close>

definition demoEnv :: "jsstring \<Rightarrow> (nat \<Rightarrow> jsstring option) \<Rightarrow> (nat \<Rightarrow> choice)
    \<Rightarrow> (nat \<Rightarrow> jsstring \<Rightarrow> fetchResult) \<Rightarrow> env" where
  "demoEnv diff inputs choices responses =
     \<lparr>workspaceFolders = Some [js ''/repo''],
      exec = (\<lambda>cwd maxBuffer. Exited 0 diff),
      showInputBox = inputs,
      showErrorMessage = choices,
      fetch = (\<lambda>n apiKey d. responses n apiKey)\<rparr>"

definition demoWorld :: "jsstring option \<Rightarrow> world" where
  "demoWorld stored =
     \<lparr>secrets = (\<lambda>name. if name = ''geminiApiKey'' then stored else None),
      repositories = Some [[]],
      trace = []\<rparr>"

definition geminiReply :: "jsstring list \<Rightarrow> json" where
  "geminiReply texts =
     JObj [(js ''candidates'',
       JArr [JObj [(js ''content'',
         JObj [(js ''parts'', JArr (map (\<lambda>t. JObj [(js ''text'', JStr t)]) texts))])]])]"

subsection \<open>The specification's words\<close>

text \<open>
  The specification's reading of the reply: ``the first candidate's first text segment'',
  that is \<^verbatim>\<open>candidates[0].content.parts[0].text\<close>. And, to compare with it, the text
  segments of all parts of a candidate, in order.
\<close>

definition firstTextSegment :: "json \<Rightarrow> json option" where
  "firstTextSegment data =
     Option.bind (Option.bind (partsOf data) index0) (getProp (js ''text''))"

definition textSegments :: "json list \<Rightarrow> jsstring list" where
  "textSegments ps =
     concat (map (\<lambda>p. case getProp (js ''text'') p of Some (JStr s) \<Rightarrow> [s] | _ \<Rightarrow> []) ps)"

section \<open>Properties\<close>

subsection \<open>Strings\<close>

lemma all_dropWhile_iff:
  "(\<forall>x\<in>set (dropWhile P s). P x) \<longleftrightarrow> (\<forall>x\<in>set s. P x)"
proof
  assume all: "\<forall>x\<in>set (dropWhile P s). P x"
  have "dropWhile P s = []"
  proof (rule ccontr)
    assume ne: "dropWhile P s \<noteq> []"
    then have "hd (dropWhile P s) \<in> set (dropWhile P s)" by (rule hd_in_set)
    moreover have "\<not> P (hd (dropWhile P s))" using ne by (rule hd_dropWhile)
    ultimately show False using all by blast
  qed
  then show "\<forall>x\<in>set s. P x" by (simp only: dropWhile_eq_Nil_conv)
next
  assume "\<forall>x\<in>set s. P x"
  then show "\<forall>x\<in>set (dropWhile P s). P x" by (blast dest: set_dropWhileD)
qed

lemma trim_Nil_iff: "trim s = [] \<longleftrightarrow> (\<forall>c\<in>set s. isWhiteSpace c)"
  by (simp add: trim_def all_dropWhile_iff)

lemma trim_ends:
  assumes "trim s \<noteq> []"
  shows "\<not> isWhiteSpace (hd (trim s)) \<and> \<not> isWhiteSpace (last (trim s))"
proof -
  let ?a = "dropWhile isWhiteSpace s"
  let ?b = "dropWhile isWhiteSpace (rev ?a)"
  from assms have b: "?b \<noteq> []" by (simp add: trim_def)
  have a: "?a \<noteq> []"
  proof
    assume "?a = []"
    then have "?b = []" by (simp only: rev.simps dropWhile.simps)
    with b show False by contradiction
  qed
  have 1: "\<not> isWhiteSpace (hd ?b)" using b by (rule hd_dropWhile)
  have "last ?b = last (rev ?a)" using b
    by (metis append_Nil2 last_appendR takeWhile_dropWhile_id)
  also have "\<dots> = hd ?a" using a by (simp only: last_rev)
  finally have 2: "\<not> isWhiteSpace (last ?b)" using hd_dropWhile[OF a] by simp
  have "hd (trim s) = last ?b" "last (trim s) = hd ?b"
    using b by (simp_all only: trim_def hd_rev last_rev)
  then show ?thesis using 1 2 by simp
qed

lemma joinWith_Nil: "joinWith [] xs = concat xs"
  by (induction "[]::jsstring" xs rule: joinWith.induct) auto


subsection \<open>The world under the helpers\<close>

lemma logEvent_simps [simp]:
  "trace (logEvent ev w) = trace w @ [ev]"
  "secrets (logEvent ev w) = secrets w"
  "repositories (logEvent ev w) = repositories w"
  by (simp_all add: logEvent_def)

lemma secretsStore_simps [simp]:
  "trace (secretsStore name v w) = trace w @ [SecretStored name v]"
  "secrets (secretsStore name v w) = (secrets w)(name \<mapsto> v)"
  "repositories (secretsStore name v w) = repositories w"
  by (simp_all add: secretsStore_def)

lemma setInputBox_simps [simp]:
  "trace (setInputBox i v w) = trace w"
  "secrets (setInputBox i v w) = secrets w"
  "repositories (setInputBox i v w) = map_option (\<lambda>rs. rs[i := v]) (repositories w)"
  by (simp_all add: setInputBox_def)

lemmas counters = inputBoxes_def rateLimitChoices_def networkCalls_def

lemma counters_logEvent [simp]:
  "networkCalls (logEvent ev w) = (if isNetworkCall ev then Suc (networkCalls w) else networkCalls w)"
  "inputBoxes (logEvent ev w) = (if isInputBox ev then Suc (inputBoxes w) else inputBoxes w)"
  "rateLimitChoices (logEvent ev w)
     = (if isRateLimitChoice ev then Suc (rateLimitChoices w) else rateLimitChoices w)"
  by (simp_all add: counters)

lemma counters_secretsStore [simp]:
  "networkCalls (secretsStore name v w) = networkCalls w"
  "inputBoxes (secretsStore name v w) = inputBoxes w"
  "rateLimitChoices (secretsStore name v w) = rateLimitChoices w"
  by (simp_all add: counters)

text \<open>The definitions to unfold when a concrete run is evaluated.\<close>

lemmas evals = demoEnv_def demoWorld_def geminiReply_def readMessage_def partsOf_def
  joinTexts_def trim_def isWhiteSpace_def js_def promptNewGeminiApiKey_def ok_def
  getGeminiApiKey_def getGitDiff_def getWorkspaceRoot_def progressTask_def generateCommand_def
  getActiveRepository_def getGitApi_def counters Let_def

lemma getGeminiApiKey_stored:
  assumes "secrets w ''geminiApiKey'' = Some k" and "k \<noteq> []"
  shows "getGeminiApiKey e w = (Some k, w)"
  using assms by (simp add: getGeminiApiKey_def)

lemma getGitDiff_keeps:
  "secrets (snd (getGitDiff e w)) = secrets w"
  "repositories (snd (getGitDiff e w)) = repositories w"
  "networkCalls (snd (getGitDiff e w)) = networkCalls w"
  "inputBoxes (snd (getGitDiff e w)) = inputBoxes w"
  "rateLimitChoices (snd (getGitDiff e w)) = rateLimitChoices w"
  by (simp_all add: getGitDiff_def counters Let_def split: sum.splits)

text \<open>An error of the generation reaches the handler's \<^verbatim>\<open>catch\<close>, which shows it.\<close>

lemma progressTask_error:
  assumes "getGitDiff e w0 = (Inr diff, w)" and "trim diff \<noteq> []"
    and "generateCommitMessage e apiKey diff w = Some (Inl err, w')"
  shows "progressTask e apiKey w0 = Some (Inl err, w')"
  using assms by (simp add: progressTask_def)

lemma generateCommand_error:
  assumes "getGeminiApiKey e w0 = (Some apiKey, w1)" and "apiKey \<noteq> []"
    and "progressTask e apiKey (logEvent ProgressStarted w1) = Some (Inl err, w')"
  shows "generateCommand e w0 = Some (logEvent (ErrorShown err) w')"
  using assms by (simp add: generateCommand_def)

subsection \<open>The credential\<close>

text \<open>
  Claim C7. When the secret store holds no key and the user cancels the first-use
  input box, \<open>getGeminiApiKey\<close> returns \<^verbatim>\<open>undefined\<close> and the command ends at once: the
  world it leaves differs from the one it found by the input box alone, so no error is
  shown, \<^verbatim>\<open>git diff\<close> is not run and no network call is made.
\<close>

theorem cancelled_first_prompt_aborts_silently:
  assumes "secrets w ''geminiApiKey'' = None"
    and "showInputBox e (inputBoxes w) = None"
  shows "getGeminiApiKey e w = (None, logEvent (InputBoxShown EnterKeyPrompt) w)
       \<and> generateCommand e w = Some (logEvent (InputBoxShown EnterKeyPrompt) w)"
  using assms by (simp add: getGeminiApiKey_def generateCommand_def)

theorem cancelled_first_prompt_aborts_silently_witness:
  "secrets (demoWorld None) ''geminiApiKey'' = None
   \<and> showInputBox (demoEnv [] (\<lambda>n. None) (\<lambda>n. Dismissed) (\<lambda>n k. FetchFailed))
        (inputBoxes (demoWorld None)) = None
   \<and> map_option trace
        (generateCommand (demoEnv [] (\<lambda>n. None) (\<lambda>n. Dismissed) (\<lambda>n k. FetchFailed))
          (demoWorld None)) = Some [InputBoxShown EnterKeyPrompt]"
  using cancelled_first_prompt_aborts_silently
    [of "demoWorld None" "demoEnv [] (\<lambda>n. None) (\<lambda>n. Dismissed) (\<lambda>n k. FetchFailed)"]
  by (simp add: demoWorld_def demoEnv_def)

subsection \<open>The staged diff\<close>

text \<open>
  Claim C9. Without a workspace folder \<open>getGitDiff\<close> fails with the NoWorkspace error.
  With one, it fails with the DiffUnavailable error exactly when the command cannot be
  run, writes more than the capture bound, or ends with a status other than 0; and
  when the command ends with status 0 the result is its output as it is, whatever the
  output, a blank one included.
\<close>

theorem getGitDiff_failure_classes:
  "(workspaceFolders e = None \<or> workspaceFolders e = Some [] \<longrightarrow>
      fst (getGitDiff e w) = Inl NoWorkspaceFolder
      \<and> specClass NoWorkspaceFolder = NoWorkspace)
   \<and> (\<forall>root rest. workspaceFolders e = Some (root # rest) \<longrightarrow>
        ((\<exists>err. fst (getGitDiff e w) = Inl err \<and> specClass err = DiffUnavailable)
           \<longleftrightarrow> (exec e root (1024 * 1024) = CannotRun
                \<or> exec e root (1024 * 1024) = OutputTooLarge
                \<or> (\<exists>code out. exec e root (1024 * 1024) = Exited code out \<and> code \<noteq> 0)))
        \<and> (\<forall>out. exec e root (1024 * 1024) = Exited 0 out \<longrightarrow>
              fst (getGitDiff e w) = Inr out))"
  by (cases "workspaceFolders e")
     (auto simp: getGitDiff_def getWorkspaceRoot_def Let_def
           split: list.splits gitRun.splits elim: execErr.elims)

theorem getGitDiff_failure_classes_witness:
  "workspaceFolders (demoEnv (js ''  '') (\<lambda>n. None) (\<lambda>n. Dismissed) (\<lambda>n k. FetchFailed))
     = Some [js ''/repo'']
   \<and> fst (getGitDiff (demoEnv (js ''  '') (\<lambda>n. None) (\<lambda>n. Dismissed) (\<lambda>n k. FetchFailed))
        (demoWorld None)) = Inr (js ''  '')"
  using getGitDiff_failure_classes
    [of "demoEnv (js ''  '') (\<lambda>n. None) (\<lambda>n. Dismissed) (\<lambda>n k. FetchFailed)" "demoWorld None"]
  by (simp add: demoEnv_def)

text \<open>
  Claim C3. Once the key is there, a staged diff made of white space only (the empty
  diff included) ends the command with the warning: after the key was read the trace
  grows by the progress notification, the \<^verbatim>\<open>git diff\<close> and the warning, so no network
  call is made and no error is shown, and no commit-message field is written.
\<close>

theorem whitespace_diff_warns_without_network_call:
  assumes "getGeminiApiKey e w = (Some apiKey, w1)" and "apiKey \<noteq> []"
    and "workspaceFolders e = Some (root # rest)"
    and "exec e root (1024 * 1024) = Exited 0 diff"
    and "\<forall>c\<in>set diff. isWhiteSpace c"
  shows "\<exists>w'. generateCommand e w = Some w'
       \<and> trace w' = trace w1 @ [ProgressStarted, GitDiffExecuted root (1024 * 1024), WarningShown]
       \<and> networkCalls w' = networkCalls w1
       \<and> filter isErrorShown (trace w') = filter isErrorShown (trace w1)
       \<and> repositories w' = repositories w1"
  using assms
  by (simp add: generateCommand_def progressTask_def getGitDiff_def getWorkspaceRoot_def
      trim_Nil_iff counters)

theorem whitespace_diff_warns_without_network_call_witness:
  "map_option (\<lambda>w'. (trace w', networkCalls w', repositories w'))
     (generateCommand
        (demoEnv [0x20, 0x20, 0x20, 0xA, 0x9] (\<lambda>n. None) (\<lambda>n. Dismissed) (\<lambda>n k. FetchFailed))
        (demoWorld (Some (js ''key-1''))))
   = Some ([ProgressStarted, GitDiffExecuted (js ''/repo'') (1024 * 1024), WarningShown], 0, Some [[]])"
proof -
  let ?e = "demoEnv [0x20, 0x20, 0x20, 0xA, 0x9] (\<lambda>n. None) (\<lambda>n. Dismissed) (\<lambda>n k. FetchFailed)"
  let ?w = "demoWorld (Some (js ''key-1''))"
  have 1: "getGeminiApiKey ?e ?w = (Some (js ''key-1''), ?w)"
    by (rule getGeminiApiKey_stored) (simp_all add: demoWorld_def js_def)
  have 2: "js ''key-1'' \<noteq> []" by (simp add: js_def)
  have 3: "workspaceFolders ?e = Some (js ''/repo'' # [])" by (simp add: demoEnv_def)
  have 4: "exec ?e (js ''/repo'') (1024 * 1024) = Exited 0 [0x20, 0x20, 0x20, 0xA, 0x9]"
    by (simp add: demoEnv_def)
  have 5: "\<forall>c\<in>set [0x20, 0x20, 0x20, 0xA, 0x9 :: 16 word]. isWhiteSpace c"
    by (simp add: isWhiteSpace_def)
  from whitespace_diff_warns_without_network_call [OF 1 2 3 4 5] show ?thesis
    by (auto simp: demoWorld_def counters)
qed

subsection \<open>The generation\<close>

text \<open>
  Claim C5. When the endpoint answers with a status that is neither 429 nor in
  200..299, \<open>generateCommitMessage\<close> fails with the error that carries the status (an
  UpstreamError of the taxonomy) after that one call. In the command the error is shown,
  and the commit-message fields and the secret store are as they were after the key
  was read.
\<close>

theorem upstream_error_leaves_field_and_key:
  assumes "fetch e (networkCalls w) apiKey diff = Response status body"
    and "status \<noteq> 429" and "\<not> ok status"
  shows "generateCommitMessage e apiKey diff w
           = Some (Inl (GeminiApiError status), logEvent (NetworkCall apiKey diff) w)
       \<and> specClass (GeminiApiError status) = UpstreamError status
       \<and> (\<forall>w0 w1. getGeminiApiKey e w0 = (Some apiKey, w1) \<and> apiKey \<noteq> []
             \<and> getGitDiff e (logEvent ProgressStarted w1) = (Inr diff, w) \<and> trim diff \<noteq> []
           \<longrightarrow> (\<exists>w'. generateCommand e w0 = Some w'
                 \<and> trace w' = trace w @ [NetworkCall apiKey diff, ErrorShown (GeminiApiError status)]
                 \<and> repositories w' = repositories w1
                 \<and> secrets w' = secrets w1))"
proof -
  let ?w' = "logEvent (NetworkCall apiKey diff) w"
  have g: "generateCommitMessage e apiKey diff w = Some (Inl (GeminiApiError status), ?w')"
    using assms by (subst generateCommitMessage.simps) simp
  have "generateCommand e w0 = Some (logEvent (ErrorShown (GeminiApiError status)) ?w')
      \<and> repositories w = repositories w1 \<and> secrets w = secrets w1"
    if h: "getGeminiApiKey e w0 = (Some apiKey, w1)" "apiKey \<noteq> []"
      "getGitDiff e (logEvent ProgressStarted w1) = (Inr diff, w)" "trim diff \<noteq> []"
    for w0 w1
  proof -
    have "progressTask e apiKey (logEvent ProgressStarted w1) = Some (Inl (GeminiApiError status), ?w')"
      using h(3,4) g by (rule progressTask_error)
    with h(1,2) have "generateCommand e w0 = Some (logEvent (ErrorShown (GeminiApiError status)) ?w')"
      by (rule generateCommand_error)
    moreover have "repositories w = repositories w1" "secrets w = secrets w1"
      using getGitDiff_keeps(1,2) [of e "logEvent ProgressStarted w1"] h(3) by simp_all
    ultimately show ?thesis by simp
  qed
  then show ?thesis using g by auto
qed

theorem upstream_error_leaves_field_and_key_witness:
  "map_option (\<lambda>w'. (trace w', repositories w', secrets w' ''geminiApiKey''))
     (generateCommand
        (demoEnv (js ''+hello'') (\<lambda>n. None) (\<lambda>n. Dismissed) (\<lambda>n k. Response 500 None))
        (demoWorld (Some (js ''key-1''))))
   = Some ([ProgressStarted, GitDiffExecuted (js ''/repo'') (1024 * 1024),
            NetworkCall (js ''key-1'') (js ''+hello''), ErrorShown (GeminiApiError 500)],
           Some [[]], Some (js ''key-1''))"
proof -
  let ?e = "demoEnv (js ''+hello'') (\<lambda>n. None) (\<lambda>n. Dismissed) (\<lambda>n k. Response 500 None)"
  let ?wa = "demoWorld (Some (js ''key-1''))"
  let ?w = "logEvent (GitDiffExecuted (js ''/repo'') (1024 * 1024)) (logEvent ProgressStarted ?wa)"
  have a: "fetch ?e (networkCalls ?w) (js ''key-1'') (js ''+hello'') = Response 500 None"
    by (simp add: demoEnv_def)
  have b: "(500::nat) \<noteq> 429" and c: "\<not> ok 500" by (simp_all add: ok_def)
  have k: "getGeminiApiKey ?e ?wa = (Some (js ''key-1''), ?wa)"
    by (rule getGeminiApiKey_stored) (simp_all add: demoWorld_def js_def)
  have d: "getGitDiff ?e (logEvent ProgressStarted ?wa) = (Inr (js ''+hello''), ?w)"
    by (simp add: getGitDiff_def getWorkspaceRoot_def demoEnv_def)
  have t: "trim (js ''+hello'') \<noteq> []" and n: "js ''key-1'' \<noteq> []"
    by (simp_all add: trim_def js_def isWhiteSpace_def)
  from upstream_error_leaves_field_and_key [OF a b c] have "\<forall>w0 w1. getGeminiApiKey ?e w0 = (Some (js ''key-1''), w1) \<and> js ''key-1'' \<noteq> []
             \<and> getGitDiff ?e (logEvent ProgressStarted w1) = (Inr (js ''+hello''), ?w) \<and> trim (js ''+hello'') \<noteq> []
           \<longrightarrow> (\<exists>w'. generateCommand ?e w0 = Some w'
                 \<and> trace w' = trace ?w @ [NetworkCall (js ''key-1'') (js ''+hello''), ErrorShown (GeminiApiError 500)]
                 \<and> repositories w' = repositories w1
                 \<and> secrets w' = secrets w1)"
    by (elim conjE)
  with k n d t obtain w' where "generateCommand ?e ?wa = Some w'"
    "trace w' = trace ?w @ [NetworkCall (js ''key-1'') (js ''+hello''), ErrorShown (GeminiApiError 500)]"
    "repositories w' = repositories ?wa" "secrets w' = secrets ?wa"
    by blast
  then show ?thesis by (simp add: demoWorld_def)
qed

text \<open>
  Claim C6. When the endpoint answers 429 and the user does not pick
  \<^verbatim>\<open>Enter New API Key\<close>, or picks it and then cancels the input box or leaves it empty,
  \<open>generateCommitMessage\<close> fails: with the rate-limit error in the first case, with the
  missing-key error in the second. The command shows that error as its last action and
  writes no commit-message field.
\<close>

theorem declined_rate_limit_fails_loudly:
  assumes "fetch e (networkCalls w) apiKey diff = Response 429 body"
    and "showErrorMessage e (rateLimitChoices w) \<noteq> EnterNewApiKey
         \<or> showInputBox e (inputBoxes w) = None
         \<or> showInputBox e (inputBoxes w) = Some []"
  shows "\<exists>err w'. generateCommitMessage e apiKey diff w = Some (Inl err, w')
       \<and> err = (if showErrorMessage e (rateLimitChoices w) = EnterNewApiKey
                then NoApiKeyProvided else RateLimitExceeded)
       \<and> (specClass err = RateLimited \<or> specClass err = NoCredential)
       \<and> secrets w' = secrets w
       \<and> (\<forall>w0 w1. getGeminiApiKey e w0 = (Some apiKey, w1) \<and> apiKey \<noteq> []
             \<and> getGitDiff e (logEvent ProgressStarted w1) = (Inr diff, w) \<and> trim diff \<noteq> []
           \<longrightarrow> (\<exists>w''. generateCommand e w0 = Some w''
                 \<and> last (trace w'') = ErrorShown err
                 \<and> repositories w'' = repositories w1))"
proof -
  let ?err = "if showErrorMessage e (rateLimitChoices w) = EnterNewApiKey
                then NoApiKeyProvided else RateLimitExceeded"
  have "\<exists>w'. generateCommitMessage e apiKey diff w = Some (Inl ?err, w')
      \<and> secrets w' = secrets w \<and> repositories w' = repositories w"
    using assms
    by (subst generateCommitMessage.simps) (auto simp: promptNewGeminiApiKey_def Let_def)
  then obtain w' where g: "generateCommitMessage e apiKey diff w = Some (Inl ?err, w')"
    and s: "secrets w' = secrets w" "repositories w' = repositories w"
    by blast
  have "\<exists>w''. generateCommand e w0 = Some w'' \<and> last (trace w'') = ErrorShown ?err
           \<and> repositories w'' = repositories w1"
    if h: "getGeminiApiKey e w0 = (Some apiKey, w1)" "apiKey \<noteq> []"
      "getGitDiff e (logEvent ProgressStarted w1) = (Inr diff, w)" "trim diff \<noteq> []"
    for w0 w1
  proof -
    have "progressTask e apiKey (logEvent ProgressStarted w1) = Some (Inl ?err, w')"
      using h(3,4) g by (rule progressTask_error)
    with h(1,2) have "generateCommand e w0 = Some (logEvent (ErrorShown ?err) w')"
      by (rule generateCommand_error)
    moreover have "repositories w = repositories w1"
      using getGitDiff_keeps(2) [of e "logEvent ProgressStarted w1"] h(3) by simp
    ultimately show ?thesis using s by simp
  qed
  with g s show ?thesis by (intro exI [of _ ?err] exI [of _ w']) auto
qed

theorem declined_rate_limit_fails_loudly_witness:
  "map_option (\<lambda>w'. (last (trace w'), repositories w'))
     (generateCommand
        (demoEnv (js ''+hello'') (\<lambda>n. None) (\<lambda>n. Cancel) (\<lambda>n k. Response 429 None))
        (demoWorld (Some (js ''key-1''))))
   = Some (ErrorShown RateLimitExceeded, Some [[]])"
proof -
  let ?e = "demoEnv (js ''+hello'') (\<lambda>n. None) (\<lambda>n. Cancel) (\<lambda>n k. Response 429 None)"
  let ?wa = "demoWorld (Some (js ''key-1''))"
  let ?w = "logEvent (GitDiffExecuted (js ''/repo'') (1024 * 1024)) (logEvent ProgressStarted ?wa)"
  have a: "fetch ?e (networkCalls ?w) (js ''key-1'') (js ''+hello'') = Response 429 None"
    by (simp add: demoEnv_def)
  have b: "showErrorMessage ?e (rateLimitChoices ?w) \<noteq> EnterNewApiKey
         \<or> showInputBox ?e (inputBoxes ?w) = None
         \<or> showInputBox ?e (inputBoxes ?w) = Some []"
    by (simp add: demoEnv_def)
  have c: "showErrorMessage ?e (rateLimitChoices ?w) = Cancel"
    by (simp add: demoEnv_def)
  have k: "getGeminiApiKey ?e ?wa = (Some (js ''key-1''), ?wa)"
    by (rule getGeminiApiKey_stored) (simp_all add: demoWorld_def js_def)
  have d: "getGitDiff ?e (logEvent ProgressStarted ?wa) = (Inr (js ''+hello''), ?w)"
    by (simp add: getGitDiff_def getWorkspaceRoot_def demoEnv_def)
  have t: "trim (js ''+hello'') \<noteq> []" and n: "js ''key-1'' \<noteq> []"
    by (simp_all add: trim_def js_def isWhiteSpace_def)
  from declined_rate_limit_fails_loudly [OF a b] obtain err where e: "err = RateLimitExceeded"
    and "\<forall>w0 w1. getGeminiApiKey ?e w0 = (Some (js ''key-1''), w1) \<and> js ''key-1'' \<noteq> []
             \<and> getGitDiff ?e (logEvent ProgressStarted w1) = (Inr (js ''+hello''), ?w)
             \<and> trim (js ''+hello'') \<noteq> []
           \<longrightarrow> (\<exists>w''. generateCommand ?e w0 = Some w''
                 \<and> last (trace w'') = ErrorShown err
                 \<and> repositories w'' = repositories w1)"
    unfolding c by auto
  with k n d t obtain w' where "generateCommand ?e ?wa = Some w'"
    "last (trace w') = ErrorShown err" "repositories w' = repositories ?wa"
    by blast
  then show ?thesis using e by (simp add: demoWorld_def)
qed

text \<open>
  Claim C10. When the endpoint answers 429, the user picks \<^verbatim>\<open>Enter New API Key\<close> and
  enters a non-empty key, the run continues as the retried call in a world \<open>w3\<close> whose
  secret store already holds the new key: the store happens before the second network
  call. So the new key is still stored when the retried call fails, be it by another
  status or by a second 429 that the user declines.
\<close>

theorem replacement_key_stored_before_retry:
  assumes "fetch e (networkCalls w) apiKey diff = Response 429 body"
    and "showErrorMessage e (rateLimitChoices w) = EnterNewApiKey"
    and "showInputBox e (inputBoxes w) = Some newKey" and "newKey \<noteq> []"
  shows "\<exists>w3. generateCommitMessage e apiKey diff w = generateCommitMessage e newKey diff w3
       \<and> trace w3 = trace w @ [NetworkCall apiKey diff, RateLimitChoiceShown,
                                InputBoxShown NewKeyPrompt, SecretStored ''geminiApiKey'' newKey]
       \<and> secrets w3 = (secrets w)(''geminiApiKey'' \<mapsto> newKey)
       \<and> (\<forall>status body'.
             fetch e (Suc (networkCalls w)) newKey diff = Response status body'
             \<and> status \<noteq> 429 \<and> \<not> ok status
           \<longrightarrow> (\<exists>w'. generateCommitMessage e apiKey diff w = Some (Inl (GeminiApiError status), w')
                 \<and> trace w' = trace w3 @ [NetworkCall newKey diff]
                 \<and> secrets w' ''geminiApiKey'' = Some newKey))
       \<and> (\<forall>body'.
             fetch e (Suc (networkCalls w)) newKey diff = Response 429 body'
             \<and> showErrorMessage e (Suc (rateLimitChoices w)) \<noteq> EnterNewApiKey
           \<longrightarrow> (\<exists>w'. generateCommitMessage e apiKey diff w = Some (Inl RateLimitExceeded, w')
                 \<and> trace w' = trace w3 @ [NetworkCall newKey diff, RateLimitChoiceShown]
                 \<and> secrets w' ''geminiApiKey'' = Some newKey))"
proof -
  let ?w3 = "secretsStore ''geminiApiKey'' newKey
    (logEvent (InputBoxShown NewKeyPrompt)
      (logEvent RateLimitChoiceShown (logEvent (NetworkCall apiKey diff) w)))"
  have step: "generateCommitMessage e apiKey diff w = generateCommitMessage e newKey diff ?w3"
    using assms
    by (subst generateCommitMessage.simps) (simp add: promptNewGeminiApiKey_def)
  have n: "networkCalls ?w3 = Suc (networkCalls w)"
    and r: "rateLimitChoices ?w3 = Suc (rateLimitChoices w)"
    by simp_all
  have up: "generateCommitMessage e newKey diff ?w3
      = Some (Inl (GeminiApiError status), logEvent (NetworkCall newKey diff) ?w3)"
    if "fetch e (Suc (networkCalls w)) newKey diff = Response status body'"
      "status \<noteq> 429" "\<not> ok status" for status body'
    using that by (subst generateCommitMessage.simps) (simp add: n)
  have rl: "generateCommitMessage e newKey diff ?w3
      = Some (Inl RateLimitExceeded, logEvent RateLimitChoiceShown (logEvent (NetworkCall newKey diff) ?w3))"
    if "fetch e (Suc (networkCalls w)) newKey diff = Response 429 body'"
      "showErrorMessage e (Suc (rateLimitChoices w)) \<noteq> EnterNewApiKey" for body'
    using that by (subst generateCommitMessage.simps) (simp add: n r)
  show ?thesis
    apply (rule exI [of _ ?w3])
    apply (intro conjI allI impI)
        apply (rule step)
       apply simp
      apply simp
     apply (simp add: step up)
    apply (simp add: step rl)
    done
qed

theorem replacement_key_stored_before_retry_witness:
  "map_option (\<lambda>(r, w'). (r, trace w', secrets w' ''geminiApiKey''))
     (generateCommitMessage
        (demoEnv (js ''+hello'') (\<lambda>n. Some (js ''key-2'')) (\<lambda>n. EnterNewApiKey)
           (\<lambda>n k. if n = 0 then Response 429 None else Response 500 None))
        (js ''key-1'') (js ''+hello'') (demoWorld (Some (js ''key-1''))))
   = Some (Inl (GeminiApiError 500),
           [NetworkCall (js ''key-1'') (js ''+hello''), RateLimitChoiceShown,
            InputBoxShown NewKeyPrompt, SecretStored ''geminiApiKey'' (js ''key-2''),
            NetworkCall (js ''key-2'') (js ''+hello'')],
           Some (js ''key-2''))"
proof -
  let ?e = "demoEnv (js ''+hello'') (\<lambda>n. Some (js ''key-2'')) (\<lambda>n. EnterNewApiKey)
              (\<lambda>n k. if n = 0 then Response 429 None else Response 500 None)"
  let ?wa = "demoWorld (Some (js ''key-1''))"
  have a: "fetch ?e (networkCalls ?wa) (js ''key-1'') (js ''+hello'') = Response 429 None"
    by (simp add: demoEnv_def demoWorld_def counters)
  have b: "showErrorMessage ?e (rateLimitChoices ?wa) = EnterNewApiKey"
    and c: "showInputBox ?e (inputBoxes ?wa) = Some (js ''key-2'')"
    by (simp_all add: demoEnv_def)
  have d: "js ''key-2'' \<noteq> []" by (simp add: js_def)
  have f: "fetch ?e (Suc (networkCalls ?wa)) (js ''key-2'') (js ''+hello'') = Response 500 None
      \<and> (500::nat) \<noteq> 429 \<and> \<not> ok 500"
    by (simp add: demoEnv_def ok_def)
  from replacement_key_stored_before_retry [OF a b c d] obtain w3 :: world where
    t: "trace w3 = trace ?wa @ [NetworkCall (js ''key-1'') (js ''+hello''), RateLimitChoiceShown,
          InputBoxShown NewKeyPrompt, SecretStored ''geminiApiKey'' (js ''key-2'')]"
    and "\<forall>status body'.
           fetch ?e (Suc (networkCalls ?wa)) (js ''key-2'') (js ''+hello'') = Response status body'
           \<and> status \<noteq> 429 \<and> \<not> ok status
         \<longrightarrow> (\<exists>w'. generateCommitMessage ?e (js ''key-1'') (js ''+hello'') ?wa
                        = Some (Inl (GeminiApiError status), w')
               \<and> trace w' = trace w3 @ [NetworkCall (js ''key-2'') (js ''+hello'')]
               \<and> secrets w' ''geminiApiKey'' = Some (js ''key-2''))"
    by blast
  with f obtain w' where
    "generateCommitMessage ?e (js ''key-1'') (js ''+hello'') ?wa = Some (Inl (GeminiApiError 500), w')"
    "trace w' = trace w3 @ [NetworkCall (js ''key-2'') (js ''+hello'')]"
    "secrets w' ''geminiApiKey'' = Some (js ''key-2'')"
    by blast
  then show ?thesis using t by (simp add: demoWorld_def)
qed

subsection \<open>What a successful generation returns\<close>

lemma readMessage_Inr:
  assumes "readMessage body w = (Inr msg, w')"
  shows "w' = w \<and> msg \<noteq> []
       \<and> (\<exists>data ps joined. body = Some data \<and> partsOf data = Some (JArr ps)
             \<and> joinTexts ps = Inr joined \<and> msg = trim joined)"
  using assms
  by (auto simp: readMessage_def Let_def split: option.splits json.splits sum.splits if_splits)

lemma generateCommitMessage_success:
  assumes "generateCommitMessage e apiKey diff w = Some y"
  shows "\<forall>msg. fst y = Inr msg \<longrightarrow>
           msg \<noteq> []
         \<and> (\<exists>key status data ps joined.
               fetch e (networkCalls (snd y) - 1) key diff = Response status (Some data)
             \<and> ok status \<and> partsOf data = Some (JArr ps)
             \<and> joinTexts ps = Inr joined \<and> msg = trim joined)"
proof (rule generateCommitMessage.raw_induct
    [where P = "\<lambda>e apiKey diff w y. \<forall>msg. fst y = Inr msg \<longrightarrow>
           msg \<noteq> []
         \<and> (\<exists>key status data ps joined.
               fetch e (networkCalls (snd y) - 1) key diff = Response status (Some data)
             \<and> ok status \<and> partsOf data = Some (JArr ps)
             \<and> joinTexts ps = Inr joined \<and> msg = trim joined)", OF _ assms], goal_cases)
  case (1 gen e apiKey diff w y)
  show ?case
  proof (cases "fetch e (networkCalls w) apiKey diff")
    case FetchFailed
    with 1(2) show ?thesis by auto
  next
    case (Response status body)
    show ?thesis
    proof (cases "status = 429")
      case True
      with 1(2) Response have
        "(\<exists>err w'. y = (Inl err, w')) \<or> (\<exists>k' w3. gen e k' diff w3 = Some y)"
        by (auto simp: Let_def split: if_splits prod.splits option.splits)
      then show ?thesis
      proof
        assume "\<exists>err w'. y = (Inl err, w')"
        then show ?thesis by auto
      next
        assume "\<exists>k' w3. gen e k' diff w3 = Some y"
        then obtain k' w3 where "gen e k' diff w3 = Some y" by blast
        then show ?thesis by (rule 1(1))
      qed
    next
      case False
      show ?thesis
      proof (cases "ok status")
        case True
        with 1(2) Response False have y: "y = readMessage body (logEvent (NetworkCall apiKey diff) w)"
          by (simp add: Let_def)
        show ?thesis
        proof (intro allI impI)
          fix msg assume "fst y = Inr msg"
          with y have "readMessage body (logEvent (NetworkCall apiKey diff) w) = (Inr msg, snd y)"
            by (metis prod.collapse)
          from readMessage_Inr [OF this] obtain data ps joined where
            "snd y = logEvent (NetworkCall apiKey diff) w" "msg \<noteq> []" "body = Some data"
            "partsOf data = Some (JArr ps)" "joinTexts ps = Inr joined" "msg = trim joined"
            by blast
          moreover from this Response
          have "fetch e (networkCalls (snd y) - 1) apiKey diff = Response status (Some data)"
            by simp
          ultimately show "msg \<noteq> [] \<and> (\<exists>key status data ps joined.
               fetch e (networkCalls (snd y) - 1) key diff = Response status (Some data)
             \<and> ok status \<and> partsOf data = Some (JArr ps)
             \<and> joinTexts ps = Inr joined \<and> msg = trim joined)"
            using True by blast
        qed
      next
        case no: False
        with 1(2) Response False show ?thesis by (auto simp: Let_def)
      qed
    qed
  qed
qed

lemma ok_not_429: "ok status \<Longrightarrow> status \<noteq> 429"
  by (auto simp: ok_def)

lemma readMessage_empty:
  assumes "(\<nexists>ps. partsOf data = Some (JArr ps))
         \<or> (\<exists>ps joined. partsOf data = Some (JArr ps) \<and> joinTexts ps = Inr joined \<and> trim joined = [])"
  shows "\<exists>err w'. readMessage (Some data) w = (Inl err, w') \<and> specClass err = EmptyGeneration"
  using assms
  by (auto simp: readMessage_def Let_def split: option.splits json.splits sum.splits)

text \<open>
  Claim C4. A message that \<open>generateCommitMessage\<close> returns is never empty, begins and
  ends with a code unit that is not white space, and is the trimmed text joined from the
  parts of the reply to the last network call, a reply with a success status. And when
  the parts of a success reply are not an array, or the text joined from them is empty
  after trimming, the call fails with an error of the EmptyGeneration kind.
\<close>

theorem returned_message_trimmed_nonempty:
  "(\<forall>msg w'. generateCommitMessage e apiKey diff w = Some (Inr msg, w') \<longrightarrow>
       msg \<noteq> [] \<and> \<not> isWhiteSpace (hd msg) \<and> \<not> isWhiteSpace (last msg)
     \<and> (\<exists>key status data ps joined.
           fetch e (networkCalls w' - 1) key diff = Response status (Some data)
         \<and> ok status \<and> partsOf data = Some (JArr ps)
         \<and> joinTexts ps = Inr joined \<and> msg = trim joined))
   \<and> (\<forall>status data.
         fetch e (networkCalls w) apiKey diff = Response status (Some data) \<and> ok status
       \<and> ((\<nexists>ps. partsOf data = Some (JArr ps))
          \<or> (\<exists>ps joined. partsOf data = Some (JArr ps) \<and> joinTexts ps = Inr joined
                \<and> trim joined = []))
       \<longrightarrow> (\<exists>err w'. generateCommitMessage e apiKey diff w = Some (Inl err, w')
             \<and> specClass err = EmptyGeneration))"
proof (rule conjI)
  show "\<forall>msg w'. generateCommitMessage e apiKey diff w = Some (Inr msg, w') \<longrightarrow>
       msg \<noteq> [] \<and> \<not> isWhiteSpace (hd msg) \<and> \<not> isWhiteSpace (last msg)
     \<and> (\<exists>key status data ps joined.
           fetch e (networkCalls w' - 1) key diff = Response status (Some data)
         \<and> ok status \<and> partsOf data = Some (JArr ps)
         \<and> joinTexts ps = Inr joined \<and> msg = trim joined)"
  proof (intro allI impI)
    fix msg w'
    assume g: "generateCommitMessage e apiKey diff w = Some (Inr msg, w')"
    from generateCommitMessage_success [OF g]
    have ne: "msg \<noteq> []"
      and ex: "\<exists>key status data ps joined.
           fetch e (networkCalls w' - 1) key diff = Response status (Some data)
         \<and> ok status \<and> partsOf data = Some (JArr ps)
         \<and> joinTexts ps = Inr joined \<and> msg = trim joined"
      by simp_all
    from ex obtain joined where "msg = trim joined" by blast
    with ne have "\<not> isWhiteSpace (hd msg) \<and> \<not> isWhiteSpace (last msg)"
      using trim_ends [of joined] by simp
    with ne ex show "msg \<noteq> [] \<and> \<not> isWhiteSpace (hd msg) \<and> \<not> isWhiteSpace (last msg)
     \<and> (\<exists>key status data ps joined.
           fetch e (networkCalls w' - 1) key diff = Response status (Some data)
         \<and> ok status \<and> partsOf data = Some (JArr ps)
         \<and> joinTexts ps = Inr joined \<and> msg = trim joined)"
      by simp
  qed
next
  show "\<forall>status data.
         fetch e (networkCalls w) apiKey diff = Response status (Some data) \<and> ok status
       \<and> ((\<nexists>ps. partsOf data = Some (JArr ps))
          \<or> (\<exists>ps joined. partsOf data = Some (JArr ps) \<and> joinTexts ps = Inr joined
                \<and> trim joined = []))
       \<longrightarrow> (\<exists>err w'. generateCommitMessage e apiKey diff w = Some (Inl err, w')
             \<and> specClass err = EmptyGeneration)"
  proof (intro allI impI)
    fix status data
    assume h: "fetch e (networkCalls w) apiKey diff = Response status (Some data) \<and> ok status
       \<and> ((\<nexists>ps. partsOf data = Some (JArr ps))
          \<or> (\<exists>ps joined. partsOf data = Some (JArr ps) \<and> joinTexts ps = Inr joined
                \<and> trim joined = []))"
    then have "generateCommitMessage e apiKey diff w
      = Some (readMessage (Some data) (logEvent (NetworkCall apiKey diff) w))"
      by (subst generateCommitMessage.simps) (simp add: ok_not_429)
    moreover from h obtain err w' where
      "readMessage (Some data) (logEvent (NetworkCall apiKey diff) w) = (Inl err, w')"
      "specClass err = EmptyGeneration"
      using readMessage_empty [of data "logEvent (NetworkCall apiKey diff) w"] by blast
    ultimately show "\<exists>err w'. generateCommitMessage e apiKey diff w = Some (Inl err, w')
             \<and> specClass err = EmptyGeneration"
      by simp
  qed
qed

theorem returned_message_trimmed_nonempty_witness:
  "generateCommitMessage
     (demoEnv (js ''+hello'') (\<lambda>n. None) (\<lambda>n. Dismissed)
        (\<lambda>n k. Response 200 (Some (geminiReply [js ''feat: add hello line\<newline>'']))))
     (js ''key-1'') (js ''+hello'') (demoWorld (Some (js ''key-1'')))
   = Some (Inr (js ''feat: add hello line''),
       logEvent (NetworkCall (js ''key-1'') (js ''+hello'')) (demoWorld (Some (js ''key-1''))))
   \<and> js ''feat: add hello line'' \<noteq> []
   \<and> \<not> isWhiteSpace (hd (js ''feat: add hello line''))
   \<and> \<not> isWhiteSpace (last (js ''feat: add hello line''))"
proof -
  have g: "generateCommitMessage
     (demoEnv (js ''+hello'') (\<lambda>n. None) (\<lambda>n. Dismissed)
        (\<lambda>n k. Response 200 (Some (geminiReply [js ''feat: add hello line\<newline>'']))))
     (js ''key-1'') (js ''+hello'') (demoWorld (Some (js ''key-1'')))
   = Some (Inr (js ''feat: add hello line''),
       logEvent (NetworkCall (js ''key-1'') (js ''+hello'')) (demoWorld (Some (js ''key-1''))))"
    by (subst generateCommitMessage.simps) (simp add: evals)
  from returned_message_trimmed_nonempty [THEN conjunct1, rule_format, OF g] g show ?thesis by blast
qed

text \<open>When every text of the parts is a string, the joined text is their concatenation.\<close>

lemma kept_strings:
  assumes "\<forall>p\<in>set ps. getProp (js ''text'') p = None \<or> (\<exists>s. getProp (js ''text'') p = Some (JStr s))"
    and "v \<in> set (filter truthy (map (getProp (js ''text'')) ps))"
  shows "\<exists>s. v = Some (JStr s)"
  using assms by auto

lemma concat_kept:
  assumes "\<forall>p\<in>set ps. getProp (js ''text'') p = None \<or> (\<exists>s. getProp (js ''text'') p = Some (JStr s))"
  shows "concat (map (\<lambda>v. case v of None \<Rightarrow> [] | Some JNull \<Rightarrow> [] | Some x \<Rightarrow> toString x)
            (filter truthy (map (getProp (js ''text'')) ps)))
       = concat (textSegments ps)"
  using assms by (induction ps) (auto simp: textSegments_def)

lemma joinTexts_strings:
  assumes "\<forall>p\<in>set ps. getProp (js ''text'') p = None \<or> (\<exists>s. getProp (js ''text'') p = Some (JStr s))"
  shows "joinTexts ps = Inr (concat (textSegments ps))"
proof -
  have "\<not> (\<exists>v\<in>set (filter truthy (map (getProp (js ''text'')) ps)).
           case v of None \<Rightarrow> False | Some x \<Rightarrow> toStringThrows x)"
  proof
    assume "\<exists>v\<in>set (filter truthy (map (getProp (js ''text'')) ps)).
           case v of None \<Rightarrow> False | Some x \<Rightarrow> toStringThrows x"
    then obtain v where v: "v \<in> set (filter truthy (map (getProp (js ''text'')) ps))"
      and t: "case v of None \<Rightarrow> False | Some x \<Rightarrow> toStringThrows x"
      by blast
    from kept_strings [OF assms v] obtain s where "v = Some (JStr s)" by blast
    with t show False by simp
  qed
  then show ?thesis
    unfolding joinTexts_def Let_def by (simp only: if_False joinWith_Nil concat_kept [OF assms])
qed

text \<open>
  Claim C2, as amended. On a reply with a success status whose first candidate has an
  array of parts, each with a string as its text or with none, the message is the
  concatenation of the texts of all parts, in order, trimmed: every segment
  contributes, not the first one alone.
\<close>

theorem message_joins_all_text_segments:
  assumes "fetch e (networkCalls w) apiKey diff = Response status (Some data)"
    and "ok status"
    and "partsOf data = Some (JArr ps)"
    and "\<forall>p\<in>set ps. getProp (js ''text'') p = None \<or> (\<exists>s. getProp (js ''text'') p = Some (JStr s))"
    and "trim (concat (textSegments ps)) \<noteq> []"
  shows "generateCommitMessage e apiKey diff w
       = Some (Inr (trim (concat (textSegments ps))), logEvent (NetworkCall apiKey diff) w)"
  using assms(1,2,3,5)
  by (subst generateCommitMessage.simps)
     (simp add: ok_not_429 readMessage_def joinTexts_strings [OF assms(4)])

theorem message_joins_all_text_segments_witness:
  "generateCommitMessage
     (demoEnv (js ''+hello'') (\<lambda>n. None) (\<lambda>n. Dismissed)
        (\<lambda>n k. Response 200 (Some (geminiReply [js ''feat: add'', js '' hello line\<newline>'']))))
     (js ''key-1'') (js ''+hello'') (demoWorld (Some (js ''key-1'')))
   = Some (Inr (js ''feat: add hello line''),
       logEvent (NetworkCall (js ''key-1'') (js ''+hello'')) (demoWorld (Some (js ''key-1''))))"
proof -
  let ?ps = "map (\<lambda>t. JObj [(js ''text'', JStr t)]) [js ''feat: add'', js '' hello line\<newline>'']"
  let ?e = "demoEnv (js ''+hello'') (\<lambda>n. None) (\<lambda>n. Dismissed)
        (\<lambda>n k. Response 200 (Some (geminiReply [js ''feat: add'', js '' hello line\<newline>''])))"
  have 1: "fetch ?e (networkCalls (demoWorld (Some (js ''key-1'')))) (js ''key-1'') (js ''+hello'')
      = Response 200 (Some (geminiReply [js ''feat: add'', js '' hello line\<newline>'']))"
    by (simp add: demoEnv_def)
  have 2: "ok 200" by (simp add: ok_def)
  have 3: "partsOf (geminiReply [js ''feat: add'', js '' hello line\<newline>'']) = Some (JArr ?ps)"
    by (simp add: partsOf_def geminiReply_def js_def)
  have 4: "\<forall>p\<in>set ?ps. getProp (js ''text'') p = None \<or> (\<exists>s. getProp (js ''text'') p = Some (JStr s))"
    by simp
  have 5: "trim (concat (textSegments ?ps)) = js ''feat: add hello line''"
    by (simp add: textSegments_def trim_def js_def isWhiteSpace_def)
  have 6: "trim (concat (textSegments ?ps)) \<noteq> []"
    unfolding 5 by (simp add: js_def)
  from message_joins_all_text_segments [OF 1 2 3 4 6] show ?thesis unfolding 5 .
qed

text \<open>
  The reading of the specification fails on a reply with two parts: the first text
  segment is \<^verbatim>\<open>"feat: "\<close>, the message returned is \<^verbatim>\<open>"feat: add x"\<close>.
\<close>

theorem first_segment_only_counterexample:
  "firstTextSegment (geminiReply [js ''feat: '', js ''add x'']) = Some (JStr (js ''feat: ''))
   \<and> map_option fst
       (generateCommitMessage
          (demoEnv (js ''+x'') (\<lambda>n. None) (\<lambda>n. Dismissed)
             (\<lambda>n k. Response 200 (Some (geminiReply [js ''feat: '', js ''add x'']))))
          (js ''key-1'') (js ''+x'') (demoWorld (Some (js ''key-1''))))
     = Some (Inr (js ''feat: add x''))
   \<and> js ''feat: add x'' \<noteq> trim (js ''feat: '')"
  by (subst generateCommitMessage.simps) (simp add: evals firstTextSegment_def)

subsection \<open>The stored key\<close>

lemma readMessage_secrets: "secrets (snd (readMessage body w)) = secrets w"
  by (auto simp: readMessage_def Let_def split: option.splits json.splits sum.splits)

lemma generateCommitMessage_secrets:
  assumes "generateCommitMessage e apiKey diff w = Some y"
  shows "secrets (snd y) = secrets w
       \<or> ((\<exists>body. fetch e (networkCalls w) apiKey diff = Response 429 body)
          \<and> showErrorMessage e (rateLimitChoices w) = EnterNewApiKey
          \<and> (\<exists>i k'. inputBoxes w \<le> i \<and> showInputBox e i = Some k' \<and> k' \<noteq> []
                \<and> secrets (snd y) = (secrets w)(''geminiApiKey'' \<mapsto> k')))"
proof (rule generateCommitMessage.raw_induct
    [where P = "\<lambda>e apiKey diff w y. secrets (snd y) = secrets w
       \<or> ((\<exists>body. fetch e (networkCalls w) apiKey diff = Response 429 body)
          \<and> showErrorMessage e (rateLimitChoices w) = EnterNewApiKey
          \<and> (\<exists>i k'. inputBoxes w \<le> i \<and> showInputBox e i = Some k' \<and> k' \<noteq> []
                \<and> secrets (snd y) = (secrets w)(''geminiApiKey'' \<mapsto> k')))", OF _ assms],
    goal_cases)
  case (1 gen e apiKey diff w y)
  let ?w2 = "logEvent RateLimitChoiceShown (logEvent (NetworkCall apiKey diff) w)"
  let ?w3 = "\<lambda>k. secretsStore ''geminiApiKey'' k (logEvent (InputBoxShown NewKeyPrompt) ?w2)"
  consider (same) "secrets (snd y) = secrets w"
    | (retry) body newKey where "fetch e (networkCalls w) apiKey diff = Response 429 body"
        "showErrorMessage e (rateLimitChoices w) = EnterNewApiKey"
        "showInputBox e (inputBoxes w) = Some newKey" "newKey \<noteq> []"
        "gen e newKey diff (?w3 newKey) = Some y"
    using 1(2)
    by (auto simp: Let_def promptNewGeminiApiKey_def readMessage_secrets
        split: fetchResult.splits if_splits option.splits)
  then show ?case
  proof cases
    case same
    then show ?thesis by simp
  next
    case retry
    have s3: "secrets (?w3 newKey) = (secrets w)(''geminiApiKey'' \<mapsto> newKey)"
      and i3: "inputBoxes (?w3 newKey) = Suc (inputBoxes w)"
      by simp_all
    from 1(1) [OF retry(5)]
    have "secrets (snd y) = secrets (?w3 newKey)
        \<or> (\<exists>i k'. inputBoxes (?w3 newKey) \<le> i \<and> showInputBox e i = Some k' \<and> k' \<noteq> []
              \<and> secrets (snd y) = (secrets (?w3 newKey))(''geminiApiKey'' \<mapsto> k'))"
      by blast
    then have "\<exists>i k'. inputBoxes w \<le> i \<and> showInputBox e i = Some k' \<and> k' \<noteq> []
        \<and> secrets (snd y) = (secrets w)(''geminiApiKey'' \<mapsto> k')"
    proof
      assume "secrets (snd y) = secrets (?w3 newKey)"
      with s3 retry(3,4) show ?thesis by auto
    next
      assume "\<exists>i k'. inputBoxes (?w3 newKey) \<le> i \<and> showInputBox e i = Some k' \<and> k' \<noteq> []
              \<and> secrets (snd y) = (secrets (?w3 newKey))(''geminiApiKey'' \<mapsto> k')"
      then obtain i k' where "Suc (inputBoxes w) \<le> i" "showInputBox e i = Some k'" "k' \<noteq> []"
        "secrets (snd y) = (secrets w)(''geminiApiKey'' \<mapsto> k')"
        unfolding s3 i3 by auto
      then show ?thesis by (intro exI [of _ i] exI [of _ k']) simp
    qed
    with retry(1,2) show ?thesis by blast
  qed
qed

lemma progressTask_secrets:
  assumes "progressTask e apiKey w0 = Some (r, w2)"
  shows "secrets w2 = secrets w0
       \<or> (\<exists>diff body i k'. fetch e (networkCalls w0) apiKey diff = Response 429 body
            \<and> showErrorMessage e (rateLimitChoices w0) = EnterNewApiKey
            \<and> inputBoxes w0 \<le> i \<and> showInputBox e i = Some k' \<and> k' \<noteq> []
            \<and> secrets w2 = (secrets w0)(''geminiApiKey'' \<mapsto> k'))"
proof -
  obtain rd w1 where d: "getGitDiff e w0 = (rd, w1)" by (cases "getGitDiff e w0")
  with getGitDiff_keeps [of e w0]
  have k: "secrets w1 = secrets w0" "networkCalls w1 = networkCalls w0"
    "inputBoxes w1 = inputBoxes w0" "rateLimitChoices w1 = rateLimitChoices w0"
    by simp_all
  show ?thesis
  proof (cases rd)
    case (Inl err)
    with assms d k show ?thesis by (simp add: progressTask_def)
  next
    case (Inr diff)
    show ?thesis
    proof (cases "trim diff = []")
      case True
      with assms d k Inr show ?thesis by (auto simp: progressTask_def)
    next
      case False
      with assms d Inr obtain r' w' where
        g: "generateCommitMessage e apiKey diff w1 = Some (r', w')" and s: "secrets w2 = secrets w'"
        by (auto simp: progressTask_def split: option.splits sum.splits)
      from generateCommitMessage_secrets [OF g] show ?thesis
        unfolding k s snd_conv by blast
    qed
  qed
qed

text \<open>
  Claim C8. When the secret store holds a non-empty key, \<open>getGeminiApiKey\<close> returns it
  and leaves the world as it is: no input box is shown. A run of the command from such
  a world changes the secret store only if the endpoint answered the first call with
  429, the user picked \<^verbatim>\<open>Enter New API Key\<close>, and the new value is a non-empty answer to
  an input box of this run. And \<open>getGeminiApiKey\<close> changes the store only on first use:
  no key stored, and a non-empty answer to its input box.
\<close>

theorem stored_key_reused_and_kept:
  assumes "secrets w ''geminiApiKey'' = Some k" and "k \<noteq> []"
  shows "getGeminiApiKey e w = (Some k, w)
       \<and> (\<forall>w'. generateCommand e w = Some w' \<and> secrets w' \<noteq> secrets w \<longrightarrow>
            (\<exists>diff body i k'. fetch e (networkCalls w) k diff = Response 429 body
               \<and> showErrorMessage e (rateLimitChoices w) = EnterNewApiKey
               \<and> inputBoxes w \<le> i \<and> showInputBox e i = Some k' \<and> k' \<noteq> []
               \<and> secrets w' = (secrets w)(''geminiApiKey'' \<mapsto> k')))
       \<and> (\<forall>w0. secrets (snd (getGeminiApiKey e w0)) \<noteq> secrets w0 \<longrightarrow>
            (secrets w0 ''geminiApiKey'' = None \<or> secrets w0 ''geminiApiKey'' = Some [])
            \<and> (\<exists>k'. showInputBox e (inputBoxes w0) = Some k' \<and> k' \<noteq> []
                  \<and> secrets (snd (getGeminiApiKey e w0)) = (secrets w0)(''geminiApiKey'' \<mapsto> k')))"
proof (intro conjI)
  show key: "getGeminiApiKey e w = (Some k, w)"
    using assms by (rule getGeminiApiKey_stored)
  show "\<forall>w'. generateCommand e w = Some w' \<and> secrets w' \<noteq> secrets w \<longrightarrow>
            (\<exists>diff body i k'. fetch e (networkCalls w) k diff = Response 429 body
               \<and> showErrorMessage e (rateLimitChoices w) = EnterNewApiKey
               \<and> inputBoxes w \<le> i \<and> showInputBox e i = Some k' \<and> k' \<noteq> []
               \<and> secrets w' = (secrets w)(''geminiApiKey'' \<mapsto> k'))"
  proof (intro allI impI, elim conjE)
    fix w'
    assume c: "generateCommand e w = Some w'" and ne: "secrets w' \<noteq> secrets w"
    from c key assms(2) obtain r w2 where
      p: "progressTask e k (logEvent ProgressStarted w) = Some (r, w2)" and s: "secrets w' = secrets w2"
      by (auto simp: generateCommand_def split: option.splits sum.splits)
    from progressTask_secrets [OF p] ne s
    show "\<exists>diff body i k'. fetch e (networkCalls w) k diff = Response 429 body
               \<and> showErrorMessage e (rateLimitChoices w) = EnterNewApiKey
               \<and> inputBoxes w \<le> i \<and> showInputBox e i = Some k' \<and> k' \<noteq> []
               \<and> secrets w' = (secrets w)(''geminiApiKey'' \<mapsto> k')"
      by simp
  qed
  show "\<forall>w0. secrets (snd (getGeminiApiKey e w0)) \<noteq> secrets w0 \<longrightarrow>
            (secrets w0 ''geminiApiKey'' = None \<or> secrets w0 ''geminiApiKey'' = Some [])
            \<and> (\<exists>k'. showInputBox e (inputBoxes w0) = Some k' \<and> k' \<noteq> []
                  \<and> secrets (snd (getGeminiApiKey e w0)) = (secrets w0)(''geminiApiKey'' \<mapsto> k'))"
    by (auto simp: getGeminiApiKey_def Let_def split: option.splits if_splits)
qed

theorem stored_key_reused_and_kept_witness:
  "getGeminiApiKey
     (demoEnv (js ''+hello'') (\<lambda>n. Some (js ''key-2'')) (\<lambda>n. EnterNewApiKey)
        (\<lambda>n k. if n = 0 then Response 429 None
                else Response 200 (Some (geminiReply [js ''fix: typo'']))))
     (demoWorld (Some (js ''key-1'')))
     = (Some (js ''key-1''), demoWorld (Some (js ''key-1'')))
   \<and> map_option (\<lambda>w'. (secrets w' ''geminiApiKey'', repositories w'))
       (generateCommand
         (demoEnv (js ''+hello'') (\<lambda>n. Some (js ''key-2'')) (\<lambda>n. EnterNewApiKey)
            (\<lambda>n k. if n = 0 then Response 429 None
                    else Response 200 (Some (geminiReply [js ''fix: typo'']))))
         (demoWorld (Some (js ''key-1''))))
     = Some (Some (js ''key-2''), Some [js ''fix: typo''])"
proof -
  let ?e = "demoEnv (js ''+hello'') (\<lambda>n. Some (js ''key-2'')) (\<lambda>n. EnterNewApiKey)
        (\<lambda>n k. if n = 0 then Response 429 None
                else Response 200 (Some (geminiReply [js ''fix: typo''])))"
  let ?wa = "demoWorld (Some (js ''key-1''))"
  have a: "secrets ?wa ''geminiApiKey'' = Some (js ''key-1'')" and b: "js ''key-1'' \<noteq> []"
    by (simp_all add: demoWorld_def js_def)
  from stored_key_reused_and_kept [OF a b, of ?e] have k: "getGeminiApiKey ?e ?wa = (Some (js ''key-1''), ?wa)"
    by (elim conjE)
  have "map_option (\<lambda>w'. (secrets w' ''geminiApiKey'', repositories w')) (generateCommand ?e ?wa)
     = Some (Some (js ''key-2''), Some [js ''fix: typo''])"
    apply (simp add: evals)
    apply (subst generateCommitMessage.simps)
    apply (simp add: evals)
    apply (subst generateCommitMessage.simps)
    apply (simp add: evals)
    done
  with k show ?thesis by simp
qed

subsection \<open>More than one retry\<close>

text \<open>
  Claim C1. The claim bounds the network calls of one \<open>generateCommitMessage\<close> by two and
  lets a second 429 fail with no further prompt. The source's comment says
  \<^verbatim>\<open>retry once\<close>, but the retry is a call of the function itself, which handles a
  second 429 like the first. With an endpoint that answers 429 twice and a user who
  enters a new key each time, the run makes three network calls and shows the
  rate-limit notification and the input box twice.
\<close>

theorem second_rate_limit_retries_again:
  "map_option (\<lambda>(r, w'). (r, networkCalls w', rateLimitChoices w', inputBoxes w'))
     (generateCommitMessage
       (demoEnv (js ''+hello'') (\<lambda>n. Some (js ''key-new'')) (\<lambda>n. EnterNewApiKey)
          (\<lambda>n k. if n < 2 then Response 429 None
                  else Response 200 (Some (geminiReply [js ''fix: typo'']))))
       (js ''key-1'') (js ''+hello'') (demoWorld (Some (js ''key-1''))))
   = Some (Inr (js ''fix: typo''), 3, 2, 2)"
  apply (subst generateCommitMessage.simps)
  apply (simp add: evals)
  apply (subst generateCommitMessage.simps)
  apply (simp add: evals)
  apply (subst generateCommitMessage.simps)
  apply (simp add: evals)
  done

end
